theory Spec2Isabelle
  imports Main "HOL-Library.Sublist"
begin

section \<open>Data model\<close>

text \<open>
  The module \<^verbatim>\<open>langchain/agents/openai_functions_agent/base.py\<close> is an adapter between a
  chat model with function calling and an agent loop.  Its collaborators are abstract
  interfaces (the language model, the prompt template, the tools); they are embedded as
  records of functions.  The type variable \<open>'j\<close> stands for decoded structured data (what
  a JSON decoder returns for a function-call argument payload).
\<close>

datatype function_call = FunctionCall (fc_name: string) (fc_arguments: string)

datatype message =
    SystemMessage string
  | HumanMessage string
  | AIMessage string "function_call option"
  | FunctionMessage string string

text \<open>\<^verbatim>\<open>message.content\<close>; for a function-result message the first field is its name tag.\<close>

fun content :: "message \<Rightarrow> string" where
  "content (SystemMessage c) = c"
| "content (HumanMessage c) = c"
| "content (AIMessage c fc) = c"
| "content (FunctionMessage n c) = c"

text \<open>The embedded function-call request; only an ai message can carry one.\<close>

fun function_call_of :: "message \<Rightarrow> function_call option" where
  "function_call_of (AIMessage c fc) = fc"
| "function_call_of m = None"

datatype 'j agent_action =
  AgentAction (tool: string) (tool_input: 'j) (action_log: string)

datatype agent_finish =
  AgentFinish (return_values: "string \<rightharpoonup> string") (finish_log: string)

text \<open>\<^verbatim>\<open>Union[AgentAction, AgentFinish]\<close>\<close>

datatype 'j decision = Action "'j agent_action" | Finish agent_finish

type_synonym 'j intermediate_step = "'j agent_action \<times> string"

text \<open>
  Values bound to names in \<^verbatim>\<open>**kwargs\<close> and in the input mapping of the runnable: text,
  a list of messages (chat history, scratchpad), or the list of intermediate steps.
\<close>

datatype 'j pvalue =
    Text string
  | Messages "message list"
  | Steps "'j intermediate_step list"

type_synonym 'j inputs = "string \<rightharpoonup> 'j pvalue"

text \<open>
  Error messages are Python f-strings; a message is kept as its pieces: literal text, an
  interpolated string, an interpolated list of variable names, an interpolated decision.
\<close>

datatype 'j frag =
    Lit string
  | Str string
  | StrList "string list"
  | Decision "'j decision"

datatype 'j error =
    ValueError "'j frag list"
  | KeyError string
  | TypeError string
  | DecodingError string
  | ModelError string

record base_tool =
  name :: string
  description :: string
  args :: string

record openai_function =
  fn_name :: string
  fn_description :: string
  fn_parameters :: string

text \<open>
  A request as the model sees it: the rendered messages and, when tools are offered, the
  list of function schemas.  The trace is the list of requests sent so far; every model
  invocation appends one entry, so an unchanged trace means that no model was invoked.
\<close>

type_synonym request = "message list \<times> openai_function list option"
type_synonym trace = "request list"

text \<open>
  \<^verbatim>\<open>BaseLanguageModel\<close>: the blocking call, the awaitable call, and the runnable's
  \<^verbatim>\<open>invoke\<close>.  Each is a black box that answers a request with a message or fails.
\<close>

record 'j language_model =
  predict_messages :: "message list \<Rightarrow> openai_function list option \<Rightarrow> 'j error + message"
  apredict_messages :: "message list \<Rightarrow> openai_function list option \<Rightarrow> 'j error + message"
  invoke :: "message list \<Rightarrow> openai_function list option \<Rightarrow> 'j error + message"

text \<open>
  \<^verbatim>\<open>BasePromptTemplate\<close>: the declared input variables and
  \<^verbatim>\<open>format_prompt(**inputs).to_messages()\<close>.
\<close>

record 'j prompt_template =
  input_variables :: "string list"
  format_prompt :: "'j inputs \<Rightarrow> 'j error + message list"

text \<open>The JSON codec of the standard library, taken as a parameter.\<close>

record 'j codec =
  loads :: "string \<Rightarrow> 'j option"
  dumps :: "'j \<Rightarrow> string"

record 'j agent =
  llm :: "'j language_model"
  tools :: "base_tool list"
  prompt :: "'j prompt_template"

section \<open>Collaborators of this repository that the module imports\<close>

text \<open>
  Modelled from the spec: \<^verbatim>\<open>format_tool_to_openai_function\<close> (module
  \<^verbatim>\<open>langchain.tools.render\<close>) is not among the sources.  The spec describes a tool
  schema as name, description and parameter shape.
\<close>

definition format_tool_to_openai_function :: "base_tool \<Rightarrow> openai_function" where
  "format_tool_to_openai_function t =
     \<lparr>fn_name = name t, fn_description = description t, fn_parameters = args t\<rparr>"

text \<open>
  Modelled from the spec: \<^verbatim>\<open>format_to_openai_function_messages\<close> (module
  \<^verbatim>\<open>langchain.agents.format_scratchpad.openai_functions\<close>) is not among the sources.
  Spec 4.1: each step contributes exactly two messages, an ai message carrying the recorded
  function-call request (tool name and arguments, serialized) followed by a function-result
  message carrying the observation text, tagged with the tool's name.  The spec gives the ai
  message no text of its own; it is empty here.
\<close>

fun format_to_openai_function_messages ::
  "'j codec \<Rightarrow> 'j intermediate_step list \<Rightarrow> message list" where
  "format_to_openai_function_messages c [] = []"
| "format_to_openai_function_messages c ((agent_action, observation) # rest) =
     [AIMessage [] (Some (FunctionCall (tool agent_action) (dumps c (tool_input agent_action)))),
      FunctionMessage (tool agent_action) observation]
     @ format_to_openai_function_messages c rest"

text \<open>
  Modelled from the spec: \<^verbatim>\<open>OpenAIFunctionsAgentOutputParser._parse_ai_message\<close> (module
  \<^verbatim>\<open>langchain.agents.output_parsers.openai_functions\<close>) is not among the sources.
  Spec 4.3: a message with an embedded function-call request gives an AgentAction naming that
  tool and its decoded arguments; a payload that is not valid structured data surfaces a
  decoding error; any other message gives an AgentFinish wrapping the plain text content
  under the key \<^verbatim>\<open>output\<close>.  The spec leaves the log string open; it is the message's text.
\<close>

definition parse_ai_message :: "'j codec \<Rightarrow> message \<Rightarrow> 'j error + 'j decision" where
  "parse_ai_message c m =
     (case function_call_of m of
        Some fc \<Rightarrow>
          (case loads c (fc_arguments fc) of
             None \<Rightarrow> Inl (DecodingError (fc_arguments fc))
           | Some decoded \<Rightarrow> Inr (Action (AgentAction (fc_name fc) decoded (content m))))
      | None \<Rightarrow> Inr (Finish (AgentFinish [''output'' \<mapsto> content m] (content m))))"

section \<open>Prompt templates\<close>

text \<open>
  Modelled from the spec: \<^verbatim>\<open>ChatPromptTemplate\<close>, \<^verbatim>\<open>HumanMessagePromptTemplate\<close> and
  \<^verbatim>\<open>MessagesPlaceholder\<close> (package \<^verbatim>\<open>langchain_core.prompts\<close>) are not among the sources.
  Spec 3: a template is an ordered sequence of message slots, some fixed, a static human
  template, and placeholder slots named for the content they take.  The human slot holds
  the name \<open>v\<close> of the variable of its template \<^verbatim>\<open>{v}\<close>.  A variable that is missing is a
  \<^verbatim>\<open>KeyError\<close>; a value of the wrong kind for its slot is a \<^verbatim>\<open>TypeError\<close>.
\<close>

datatype slot =
    Fixed message
  | HumanMessagePromptTemplate string
  | MessagesPlaceholder string

fun slot_variables :: "slot \<Rightarrow> string list" where
  "slot_variables (Fixed m) = []"
| "slot_variables (HumanMessagePromptTemplate v) = [v]"
| "slot_variables (MessagesPlaceholder v) = [v]"

fun format_slot :: "'j inputs \<Rightarrow> slot \<Rightarrow> 'j error + message list" where
  "format_slot kw (Fixed m) = Inr [m]"
| "format_slot kw (HumanMessagePromptTemplate v) =
     (case kw v of
        None \<Rightarrow> Inl (KeyError v)
      | Some (Text t) \<Rightarrow> Inr [HumanMessage t]
      | Some other \<Rightarrow> Inl (TypeError v))"
| "format_slot kw (MessagesPlaceholder v) =
     (case kw v of
        None \<Rightarrow> Inl (KeyError v)
      | Some (Messages ms) \<Rightarrow> Inr ms
      | Some other \<Rightarrow> Inl (TypeError v))"

fun format_messages :: "'j inputs \<Rightarrow> slot list \<Rightarrow> 'j error + message list" where
  "format_messages kw [] = Inr []"
| "format_messages kw (s # rest) =
     (case format_slot kw s of
        Inl e \<Rightarrow> Inl e
      | Inr ms \<Rightarrow>
          (case format_messages kw rest of
             Inl e \<Rightarrow> Inl e
           | Inr ms' \<Rightarrow> Inr (ms @ ms')))"

definition ChatPromptTemplate :: "slot list \<Rightarrow> 'j prompt_template" where
  "ChatPromptTemplate messages =
     \<lparr>input_variables = remdups (concat (map slot_variables messages)),
      format_prompt = (\<lambda>kw. format_messages kw messages)\<rparr>"

text \<open>
  \<^verbatim>\<open>create_default_prompt\<close> (lines 232 to 263): the system message, the chat-history
  placeholder when asked for, then the human input slot and the scratchpad placeholder.
  The embedding covers the calls that pass a text as system message.
\<close>

definition create_default_prompt :: "string \<Rightarrow> bool \<Rightarrow> 'j prompt_template" where
  "create_default_prompt system_message include_chat_history =
     ChatPromptTemplate
       ([Fixed (SystemMessage system_message)]
        @ (if include_chat_history then [MessagesPlaceholder ''chat_history''] else [])
        @ [HumanMessagePromptTemplate ''input'', MessagesPlaceholder ''agent_scratchpad''])"

section \<open>The agent\<close>

text \<open>
  \<^verbatim>\<open>validate_prompt\<close> (lines 53 to 61) is a root validator: it runs whenever the class
  is instantiated, so the constructor is the validator applied to the field values.
\<close>

definition validate_prompt :: "'j agent \<Rightarrow> 'j error + 'j agent" where
  "validate_prompt values =
     (if ''agent_scratchpad'' \<notin> set (input_variables (prompt values))
      then Inl (ValueError
                  [Lit ''`agent_scratchpad` should be one of the variables in the prompt, got '',
                   StrList (input_variables (prompt values))])
      else Inr values)"

definition OpenAIFunctionsAgent ::
  "'j language_model \<Rightarrow> base_tool list \<Rightarrow> 'j prompt_template \<Rightarrow> 'j error + 'j agent" where
  "OpenAIFunctionsAgent l ts p = validate_prompt \<lparr>llm = l, tools = ts, prompt = p\<rparr>"

text \<open>
  The property \<^verbatim>\<open>functions\<close> (lines 68 to 70); the name is a keyword of Isabelle, hence
  the prefix.
\<close>

definition agent_functions :: "'j agent \<Rightarrow> openai_function list" where
  "agent_functions self = map format_tool_to_openai_function (tools self)"

text \<open>
  The dict comprehension of lines 89 to 91 and 128 to 130: it walks the declared variables
  in order, skips \<^verbatim>\<open>agent_scratchpad\<close>, and \<^verbatim>\<open>kwargs[k]\<close> raises \<^verbatim>\<open>KeyError\<close> at the
  first name that \<^verbatim>\<open>kwargs\<close> lacks.
\<close>

fun selected_inputs :: "string list \<Rightarrow> 'j inputs \<Rightarrow> 'j error + 'j inputs" where
  "selected_inputs [] kwargs = Inr Map.empty"
| "selected_inputs (k # ks) kwargs =
     (if k = ''agent_scratchpad'' then selected_inputs ks kwargs
      else
        (case kwargs k of
           None \<Rightarrow> Inl (KeyError k)
         | Some v \<Rightarrow>
             (case selected_inputs ks kwargs of
                Inl e \<Rightarrow> Inl e
              | Inr sel \<Rightarrow> Inr (sel(k \<mapsto> v)))))"

text \<open>One model invocation: the reply, and the trace extended by the request.\<close>

definition call_model ::
  "(message list \<Rightarrow> openai_function list option \<Rightarrow> 'j error + message) \<Rightarrow>
   message list \<Rightarrow> openai_function list option \<Rightarrow> trace \<Rightarrow> ('j error + message) \<times> trace" where
  "call_model method messages fns tr = (method messages fns, tr @ [(messages, fns)])"

text \<open>
  \<^verbatim>\<open>plan\<close> (lines 72 to 109).  The \<^verbatim>\<open>callbacks\<close> argument only reaches the model's
  instrumentation and is left out.  \<^verbatim>\<open>kwargs\<close> is the mapping of user inputs that remains
  after Python has bound the named parameters.
\<close>

definition plan ::
  "'j codec \<Rightarrow> 'j agent \<Rightarrow> 'j intermediate_step list \<Rightarrow> bool \<Rightarrow> 'j inputs \<Rightarrow> trace \<Rightarrow>
   ('j error + 'j decision) \<times> trace" where
  "plan c self intermediate_steps with_functions kwargs tr =
     (let agent_scratchpad = format_to_openai_function_messages c intermediate_steps in
      case selected_inputs (input_variables (prompt self)) kwargs of
        Inl e \<Rightarrow> (Inl e, tr)
      | Inr sel \<Rightarrow>
          (let full_inputs = sel(''agent_scratchpad'' \<mapsto> Messages agent_scratchpad) in
           case format_prompt (prompt self) full_inputs of
             Inl e \<Rightarrow> (Inl e, tr)
           | Inr messages \<Rightarrow>
               (case (if with_functions
                      then call_model (predict_messages (llm self)) messages
                             (Some (agent_functions self)) tr
                      else call_model (predict_messages (llm self)) messages None tr) of
                  (Inl e, tr') \<Rightarrow> (Inl e, tr')
                | (Inr predicted_message, tr') \<Rightarrow> (parse_ai_message c predicted_message, tr'))))"

text \<open>
  \<^verbatim>\<open>aplan\<close> (lines 111 to 140): the same steps written out again, the model reached
  through \<^verbatim>\<open>apredict_messages\<close>; there is no \<^verbatim>\<open>with_functions\<close> parameter.  Awaiting the
  reply suspends the caller and does not change what is computed.
\<close>

definition aplan ::
  "'j codec \<Rightarrow> 'j agent \<Rightarrow> 'j intermediate_step list \<Rightarrow> 'j inputs \<Rightarrow> trace \<Rightarrow>
   ('j error + 'j decision) \<times> trace" where
  "aplan c self intermediate_steps kwargs tr =
     (let agent_scratchpad = format_to_openai_function_messages c intermediate_steps in
      case selected_inputs (input_variables (prompt self)) kwargs of
        Inl e \<Rightarrow> (Inl e, tr)
      | Inr sel \<Rightarrow>
          (let full_inputs = sel(''agent_scratchpad'' \<mapsto> Messages agent_scratchpad) in
           case format_prompt (prompt self) full_inputs of
             Inl e \<Rightarrow> (Inl e, tr)
           | Inr messages \<Rightarrow>
               (case call_model (apredict_messages (llm self)) messages
                       (Some (agent_functions self)) tr of
                  (Inl e, tr') \<Rightarrow> (Inl e, tr')
                | (Inr predicted_message, tr') \<Rightarrow> (parse_ai_message c predicted_message, tr'))))"

text \<open>
  \<^verbatim>\<open>return_stopped_response\<close> (lines 142 to 169).  The call of lines 156 to 158,
  \<^verbatim>\<open>self.plan(intermediate_steps, with_functions=False, **kwargs)\<close>, passes
  \<^verbatim>\<open>with_functions\<close> by keyword next to the unpacked mapping: when the mapping holds the
  key \<^verbatim>\<open>with_functions\<close> Python raises \<^verbatim>\<open>TypeError\<close> before \<^verbatim>\<open>plan\<close> runs, and an entry
  under \<^verbatim>\<open>callbacks\<close> is bound to the parameter of that name, so that it is not among the
  \<^verbatim>\<open>kwargs\<close> of \<^verbatim>\<open>plan\<close>.  The \<^verbatim>\<open>TypeError\<close> carries the name at fault.  The names of
  the operation's own parameters cannot be keys of its \<^verbatim>\<open>kwargs\<close>.
\<close>

definition return_stopped_response ::
  "'j codec \<Rightarrow> 'j agent \<Rightarrow> string \<Rightarrow> 'j intermediate_step list \<Rightarrow> 'j inputs \<Rightarrow> trace \<Rightarrow>
   ('j error + agent_finish) \<times> trace" where
  "return_stopped_response c self early_stopping_method intermediate_steps kwargs tr =
     (if early_stopping_method = ''force''
      then (Inr (AgentFinish
                   [''output'' \<mapsto> ''Agent stopped due to iteration limit or time limit.''] []),
            tr)
      else if early_stopping_method = ''generate''
      then
        (case kwargs ''with_functions'' of
           Some v \<Rightarrow> (Inl (TypeError ''with_functions''), tr)
         | None \<Rightarrow>
             (case plan c self intermediate_steps False (kwargs |` (- {''callbacks''})) tr of
                (Inl e, tr') \<Rightarrow> (Inl e, tr')
              | (Inr (Finish agent_decision), tr') \<Rightarrow> (Inr agent_decision, tr')
              | (Inr (Action agent_decision), tr') \<Rightarrow>
                  (Inl (ValueError
                          [Lit ''got AgentAction with no functions provided: '',
                           Decision (Action agent_decision)]),
                   tr')))
      else (Inl (ValueError
                   [Lit ''early_stopping_method should be one of `force` or `generate`, got '',
                    Str early_stopping_method]),
            tr))"

section \<open>The runnable built by \<^verbatim>\<open>create_openai_functions_agent\<close>\<close>

text \<open>
  Modelled from the spec: the runnable combinators of \<^verbatim>\<open>langchain_core.runnables\<close>
  (\<^verbatim>\<open>RunnablePassthrough.assign\<close>, the pipe \<^verbatim>\<open>|\<close>, \<^verbatim>\<open>bind\<close>, and \<^verbatim>\<open>invoke\<close> of a
  prompt and of the output parser) are not among the sources.  Spec 4.5 names the stages:
  variable-merge, prompt-render, model-invoke with tools bound, output-parse, composed into
  one invocation chain.  A stage maps its input and the trace to a result or an error and
  the new trace; the pipe stops at the first error.
\<close>

type_synonym ('j, 'a, 'b) runnable = "'a \<Rightarrow> trace \<Rightarrow> ('j error + 'b) \<times> trace"

definition pipe :: "('j, 'a, 'b) runnable \<Rightarrow> ('j, 'b, 'c) runnable \<Rightarrow> ('j, 'a, 'c) runnable" where
  "pipe first second x tr =
     (case first x tr of
        (Inl e, tr') \<Rightarrow> (Inl e, tr')
      | (Inr y, tr') \<Rightarrow> second y tr')"

text \<open>Variable-merge: the input mapping with one more entry, computed from the mapping.\<close>

definition RunnablePassthrough_assign ::
  "string \<Rightarrow> ('j inputs \<Rightarrow> 'j error + 'j pvalue) \<Rightarrow> ('j, 'j inputs, 'j inputs) runnable" where
  "RunnablePassthrough_assign key f x tr =
     (case f x of
        Inl e \<Rightarrow> (Inl e, tr)
      | Inr v \<Rightarrow> (Inr (x(key \<mapsto> v)), tr))"

text \<open>Prompt-render: the template reads its declared variables from the mapping.\<close>

fun input_dict :: "string list \<Rightarrow> 'j inputs \<Rightarrow> 'j error + 'j inputs" where
  "input_dict [] inner_input = Inr Map.empty"
| "input_dict (k # ks) inner_input =
     (case inner_input k of
        None \<Rightarrow> Inl (KeyError k)
      | Some v \<Rightarrow>
          (case input_dict ks inner_input of
             Inl e \<Rightarrow> Inl e
           | Inr d \<Rightarrow> Inr (d(k \<mapsto> v))))"

definition prompt_invoke :: "'j prompt_template \<Rightarrow> ('j, 'j inputs, message list) runnable" where
  "prompt_invoke p inner_input tr =
     (case input_dict (input_variables p) inner_input of
        Inl e \<Rightarrow> (Inl e, tr)
      | Inr d \<Rightarrow> (format_prompt p d, tr))"

text \<open>Model-invoke with tools bound: \<^verbatim>\<open>llm.bind(functions=...)\<close>, then \<^verbatim>\<open>invoke\<close>.\<close>

definition bind ::
  "'j language_model \<Rightarrow> openai_function list \<Rightarrow> ('j, message list, message) runnable" where
  "bind l fns messages tr = call_model (invoke l) messages (Some fns) tr"

text \<open>Output-parse: the parser applied to the model's message.\<close>

definition OpenAIFunctionsAgentOutputParser :: "'j codec \<Rightarrow> ('j, message, 'j decision) runnable" where
  "OpenAIFunctionsAgentOutputParser c m tr = (parse_ai_message c m, tr)"

text \<open>
  The function of line 338: \<^verbatim>\<open>x["intermediate_steps"]\<close> raises \<^verbatim>\<open>KeyError\<close> when the key
  is absent; the formatter takes a list of steps and nothing else.
\<close>

definition scratchpad_of :: "'j codec \<Rightarrow> 'j inputs \<Rightarrow> 'j error + 'j pvalue" where
  "scratchpad_of c x =
     (case x ''intermediate_steps'' of
        None \<Rightarrow> Inl (KeyError ''intermediate_steps'')
      | Some (Steps steps) \<Rightarrow> Inr (Messages (format_to_openai_function_messages c steps))
      | Some other \<Rightarrow> Inl (TypeError ''intermediate_steps''))"

text \<open>\<^verbatim>\<open>create_openai_functions_agent\<close> (lines 266 to 346).\<close>

definition create_openai_functions_agent ::
  "'j codec \<Rightarrow> 'j language_model \<Rightarrow> base_tool list \<Rightarrow> 'j prompt_template \<Rightarrow>
   'j error + ('j, 'j inputs, 'j decision) runnable" where
  "create_openai_functions_agent c l ts p =
     (if ''agent_scratchpad'' \<notin> set (input_variables p)
      then Inl (ValueError
                  [Lit ''Prompt must have input variable `agent_scratchpad`, but wasn't found. Found '',
                   StrList (input_variables p),
                   Lit '' instead.''])
      else
        (let llm_with_tools = bind l (map format_tool_to_openai_function ts) in
         Inr (pipe
                (pipe
                   (pipe (RunnablePassthrough_assign ''agent_scratchpad'' (scratchpad_of c))
                         (prompt_invoke p))
                   llm_with_tools)
                (OpenAIFunctionsAgentOutputParser c))))"

section \<open>The parsing policy, and a concrete agent\<close>

text \<open>
  The output parsing policy in the words of the specification, as a predicate on the
  model's message \<open>m\<close> and the result \<open>r\<close> of a planning call: a function-call request
  with decodable arguments gives an action with that tool name and the decoded input, one
  with undecodable arguments gives a decoding error, and a message without a request gives
  a finish whose output mapping holds exactly the text under \<^verbatim>\<open>output\<close>.
\<close>

definition follows_parsing_policy :: "'j codec \<Rightarrow> message \<Rightarrow> 'j error + 'j decision \<Rightarrow> bool" where
  "follows_parsing_policy c m r =
     (case function_call_of m of
        Some (FunctionCall n a) \<Rightarrow>
          (case loads c a of
             Some d \<Rightarrow>
               (case r of Inr (Action act) \<Rightarrow> tool act = n \<and> tool_input act = d | _ \<Rightarrow> False)
           | None \<Rightarrow> (case r of Inl (DecodingError s) \<Rightarrow> True | _ \<Rightarrow> False))
      | None \<Rightarrow>
          (case r of
             Inr (Finish f) \<Rightarrow> return_values f = [''output'' \<mapsto> content m]
           | _ \<Rightarrow> False))"

text \<open>
  The end-to-end scenario of the specification: an agent with the single tool
  \<^verbatim>\<open>search\<close>, the default prompt, and a model stub that answers every request with a fixed
  message.  The codec stub decodes the two argument payloads of the scenario and rejects
  every other text.
\<close>

definition mock_codec :: "(string \<times> string) list codec" where
  \<open>mock_codec =
     \<lparr>loads = (\<lambda>s. if s = ''{"q": "x"}'' then Some [(''q'', ''x'')]
                   else if s = ''{"q": "weather today"}'' then Some [(''q'', ''weather today'')]
                   else None),
      dumps = (\<lambda>d. if d = [(''q'', ''x'')] then ''{"q": "x"}''
                   else if d = [(''q'', ''weather today'')] then ''{"q": "weather today"}''
                   else ''{}'')\<rparr>\<close>

definition mock_llm :: "message \<Rightarrow> 'j language_model" where
  "mock_llm reply =
     \<lparr>predict_messages = (\<lambda>messages fns. Inr reply),
      apredict_messages = (\<lambda>messages fns. Inr reply),
      invoke = (\<lambda>messages fns. Inr reply)\<rparr>"

definition search_tool :: base_tool where
  "search_tool = \<lparr>name = ''search'', description = ''Search the web.'', args = ''{q: string}''\<rparr>"

definition search_agent :: "message \<Rightarrow> 'j agent" where
  "search_agent reply =
     \<lparr>llm = mock_llm reply, tools = [search_tool],
      prompt = create_default_prompt ''You are a helpful AI assistant.'' False\<rparr>"

section \<open>Lemmas about the building blocks\<close>

lemmas example_defs =
  mock_codec_def mock_llm_def search_tool_def search_agent_def create_default_prompt_def
  ChatPromptTemplate_def agent_functions_def format_tool_to_openai_function_def

lemma selected_inputs_present:
  "(\<forall>k\<in>set ks. k \<noteq> ''agent_scratchpad'' \<longrightarrow> kwargs k \<noteq> None) \<Longrightarrow>
   selected_inputs ks kwargs = Inr (kwargs |` (set ks - {''agent_scratchpad''}))"
proof (induction ks)
  case Nil
  then show ?case by simp
next
  case (Cons k ks)
  show ?case
  proof (cases "k = ''agent_scratchpad''")
    case True
    with Cons show ?thesis by simp
  next
    case False
    with Cons.prems obtain v where v: "kwargs k = Some v" by auto
    have ih: "selected_inputs ks kwargs = Inr (kwargs |` (set ks - {''agent_scratchpad''}))"
      using Cons by simp
    have "(kwargs |` (set ks - {''agent_scratchpad''}))(k \<mapsto> v)
          = kwargs |` (set (k # ks) - {''agent_scratchpad''})"
      using False v by (auto simp: restrict_map_def fun_eq_iff)
    with False v ih show ?thesis by simp
  qed
qed

lemma selected_inputs_missing:
  "\<exists>k\<in>set ks. k \<noteq> ''agent_scratchpad'' \<and> kwargs k = None \<Longrightarrow>
   \<exists>k\<in>set ks. k \<noteq> ''agent_scratchpad'' \<and> kwargs k = None \<and>
            selected_inputs ks kwargs = Inl (KeyError k)"
proof (induction ks)
  case Nil
  then show ?case by simp
next
  case (Cons k ks)
  show ?case
  proof (cases "k \<noteq> ''agent_scratchpad'' \<and> kwargs k = None")
    case True
    then show ?thesis by auto
  next
    case False
    with Cons.prems have "\<exists>k\<in>set ks. k \<noteq> ''agent_scratchpad'' \<and> kwargs k = None" by auto
    from Cons.IH [OF this] obtain k' where k': "k' \<in> set ks" "k' \<noteq> ''agent_scratchpad''"
      "kwargs k' = None" "selected_inputs ks kwargs = Inl (KeyError k')" by blast
    with False have "selected_inputs (k # ks) kwargs = Inl (KeyError k')"
      by (auto split: option.splits)
    with k' show ?thesis by auto
  qed
qed

lemma selected_inputs_cong:
  "(\<forall>k\<in>set ks. k \<noteq> ''agent_scratchpad'' \<longrightarrow> kw1 k = kw2 k) \<Longrightarrow>
   selected_inputs ks kw1 = selected_inputs ks kw2"
  by (induction ks) (auto split: option.splits sum.splits)

lemma length_format_to_openai_function_messages:
  "length (format_to_openai_function_messages c steps) = 2 * length steps"
  by (induction c steps rule: format_to_openai_function_messages.induct) simp_all

lemma nth_format_to_openai_function_messages:
  "i < length steps \<Longrightarrow>
   format_to_openai_function_messages c steps ! (2 * i) =
     AIMessage [] (Some (FunctionCall (tool (fst (steps ! i)))
                           (dumps c (tool_input (fst (steps ! i)))))) \<and>
   format_to_openai_function_messages c steps ! (2 * i + 1) =
     FunctionMessage (tool (fst (steps ! i))) (snd (steps ! i))"
proof (induction c steps arbitrary: i rule: format_to_openai_function_messages.induct)
  case (1 c)
  then show ?case by simp
next
  case (2 c agent_action observation rest)
  show ?case
  proof (cases i)
    case 0
    then show ?thesis by simp
  next
    case (Suc j)
    with 2 show ?thesis by simp
  qed
qed

lemma input_dict_selected_inputs:
  "input_dict ks (x(''agent_scratchpad'' \<mapsto> M)) =
     (case selected_inputs ks x of
        Inl e \<Rightarrow> Inl e
      | Inr sel \<Rightarrow> Inr (if ''agent_scratchpad'' \<in> set ks then sel(''agent_scratchpad'' \<mapsto> M) else sel))"
proof (induction ks)
  case Nil
  then show ?case by simp
next
  case (Cons k ks)
  show ?case
  proof (cases "k = ''agent_scratchpad''")
    case True
    with Cons show ?thesis by (auto split: sum.splits simp: fun_eq_iff)
  next
    case False
    with Cons show ?thesis
      by (auto split: sum.splits option.splits simp: fun_upd_twist)
  qed
qed

lemma parse_ai_message_policy: "follows_parsing_policy c m (parse_ai_message c m)"
  by (simp add: follows_parsing_policy_def parse_ai_message_def
           split: option.splits function_call.splits)

lemma names_force:
  "sublist ''`force`'' ''early_stopping_method should be one of `force` or `generate`, got ''"
  by code_simp

lemma names_generate:
  "sublist ''`generate`'' ''early_stopping_method should be one of `force` or `generate`, got ''"
  by code_simp

lemma plan_trace:
  "snd (plan c self steps with_functions kwargs tr) = tr \<or>
   (\<exists>messages. snd (plan c self steps with_functions kwargs tr) =
      tr @ [(messages, if with_functions then Some (agent_functions self) else None)])"
  by (simp add: plan_def call_model_def split: sum.splits prod.splits)

lemma aplan_trace:
  "snd (aplan c self steps kwargs tr) = tr \<or>
   (\<exists>messages. snd (aplan c self steps kwargs tr) = tr @ [(messages, Some (agent_functions self))])"
  by (simp add: aplan_def call_model_def split: sum.splits prod.splits)

lemma aplan_plan_trace:
  "snd (aplan c self steps kwargs tr) = snd (plan c self steps True kwargs tr)"
  by (simp add: aplan_def plan_def call_model_def split: sum.splits)

lemma aplan_plan_same_reply:
  "\<forall>messages. apredict_messages (llm self) messages (Some (agent_functions self)) =
               predict_messages (llm self) messages (Some (agent_functions self)) \<Longrightarrow>
   aplan c self steps kwargs tr = plan c self steps True kwargs tr"
  by (simp add: aplan_def plan_def call_model_def split: sum.splits)

section \<open>The claims\<close>

subsection \<open>Stop handling\<close>

text \<open>
  Claim C4.  For every intermediate-step sequence and every variable mapping,
  \<^verbatim>\<open>return_stopped_response\<close> with selector \<^verbatim>\<open>force\<close> invokes no model (the trace is
  returned as it was) and returns an AgentFinish whose output mapping is exactly
  \<^verbatim>\<open>{"output": "Agent stopped due to iteration limit or time limit."}\<close>, with an empty log,
  whatever the inputs are.
\<close>

theorem force_stop:
  "return_stopped_response c self ''force'' intermediate_steps kwargs tr =
     (Inr (AgentFinish [''output'' \<mapsto> ''Agent stopped due to iteration limit or time limit.''] []),
      tr)"
  by (simp add: return_stopped_response_def)

text \<open>
  Claim C6.  For every selector other than \<^verbatim>\<open>force\<close> and \<^verbatim>\<open>generate\<close>,
  \<^verbatim>\<open>return_stopped_response\<close> fails with a \<^verbatim>\<open>ValueError\<close> whose message text names both
  valid selector values, followed by the selector that was given; the trace is unchanged,
  so no model was invoked.
\<close>

theorem unknown_selector:
  "early_stopping_method \<noteq> ''force'' \<Longrightarrow> early_stopping_method \<noteq> ''generate'' \<Longrightarrow>
   return_stopped_response c self early_stopping_method intermediate_steps kwargs tr =
     (Inl (ValueError
             [Lit ''early_stopping_method should be one of `force` or `generate`, got '',
              Str early_stopping_method]),
      tr) \<and>
   sublist ''`force`'' ''early_stopping_method should be one of `force` or `generate`, got '' \<and>
   sublist ''`generate`'' ''early_stopping_method should be one of `force` or `generate`, got ''"
  using names_force names_generate by (simp add: return_stopped_response_def)

theorem unknown_selector_witness:
  "''abort'' \<noteq> ''force'' \<and> ''abort'' \<noteq> ''generate'' \<and>
   return_stopped_response mock_codec (search_agent (AIMessage ''It is sunny.'' None)) ''abort''
       [] Map.empty [] =
     (Inl (ValueError
             [Lit ''early_stopping_method should be one of `force` or `generate`, got '',
              Str ''abort'']),
      [])"
proof -
  have h1: "''abort'' \<noteq> ''force''" by simp
  have h2: "''abort'' \<noteq> ''generate''" by simp
  from unknown_selector [OF h1 h2, of mock_codec "search_agent (AIMessage ''It is sunny.'' None)"
      "[]" Map.empty "[]"]
  show ?thesis using h1 h2 by blast
qed

text \<open>
  Claim C5, as the code has it.  With selector \<^verbatim>\<open>generate\<close> and a mapping that has no
  entry named \<^verbatim>\<open>with_functions\<close>, \<^verbatim>\<open>return_stopped_response\<close> makes one planning call
  with the tool schemas disabled, on the mapping without its \<^verbatim>\<open>callbacks\<close> entry, and
  keeps its trace: a model request made on the way carries no function schemas and there
  is at most one.  An AgentFinish from that call is returned unchanged; an AgentAction
  makes the operation fail with the \<^verbatim>\<open>ValueError\<close> ``got AgentAction with no functions
  provided''; an error of the planning call is passed on.  A mapping with an entry named
  \<^verbatim>\<open>with_functions\<close> makes the operation fail with \<^verbatim>\<open>TypeError\<close> before any planning
  and with no model request.
\<close>

theorem generate_stop:
  "(kwargs ''with_functions'' \<noteq> None \<longrightarrow>
      return_stopped_response c self ''generate'' steps kwargs tr =
        (Inl (TypeError ''with_functions''), tr)) \<and>
   (kwargs ''with_functions'' = None \<longrightarrow>
      (case plan c self steps False (kwargs |` (- {''callbacks''})) tr of
         (r, tr') \<Rightarrow>
           snd (return_stopped_response c self ''generate'' steps kwargs tr) = tr' \<and>
           (\<forall>f. r = Inr (Finish f) \<longrightarrow>
              fst (return_stopped_response c self ''generate'' steps kwargs tr) = Inr f) \<and>
           (\<forall>act. r = Inr (Action act) \<longrightarrow>
              fst (return_stopped_response c self ''generate'' steps kwargs tr) =
                Inl (ValueError [Lit ''got AgentAction with no functions provided: '',
                                 Decision (Action act)])) \<and>
           (\<forall>e. r = Inl e \<longrightarrow>
              fst (return_stopped_response c self ''generate'' steps kwargs tr) = Inl e) \<and>
           (tr' = tr \<or> (\<exists>messages. tr' = tr @ [(messages, None)]))))"
  using plan_trace [of c self steps False "kwargs |` (- {''callbacks''})" tr]
  by (auto simp: return_stopped_response_def split: prod.splits sum.splits decision.splits)

theorem generate_stop_witness:
  \<open>return_stopped_response mock_codec (search_agent (AIMessage ''It is sunny.'' None)) ''generate'' [] ([''input'' \<mapsto> Text ''weather today'', ''callbacks'' \<mapsto> Text ''handler'']) [] =
     (Inr (AgentFinish [''output'' \<mapsto> ''It is sunny.''] ''It is sunny.''), [([SystemMessage ''You are a helpful AI assistant.'', HumanMessage ''weather today''],
        None)]) \<and>
   fst (return_stopped_response mock_codec (search_agent (AIMessage [] (Some (FunctionCall ''search'' ''{"q": "weather today"}'')))) ''generate'' [] ([''input'' \<mapsto> Text ''weather today'']) []) =
     Inl (ValueError [Lit ''got AgentAction with no functions provided: '',
                      Decision (Action (AgentAction ''search'' [(''q'', ''weather today'')] []))]) \<and>
   return_stopped_response mock_codec (search_agent (AIMessage ''It is sunny.'' None)) ''generate'' [] ([''input'' \<mapsto> Text ''weather today'', ''with_functions'' \<mapsto> Text ''True'']) [] =
     (Inl (TypeError ''with_functions''), [])\<close>
proof -
  have n1: "(([''input'' \<mapsto> Text ''weather today'', ''callbacks'' \<mapsto> Text ''handler'']) :: (string \<times> string) list inputs) ''with_functions'' = None"
    by simp
  have n2: "(([''input'' \<mapsto> Text ''weather today'']) :: (string \<times> string) list inputs) ''with_functions'' = None"
    by simp
  have n3: "(([''input'' \<mapsto> Text ''weather today'', ''with_functions'' \<mapsto> Text ''True'']) :: (string \<times> string) list inputs) ''with_functions'' \<noteq> None"
    by simp
  have p1: \<open>plan mock_codec (search_agent (AIMessage ''It is sunny.'' None)) [] False (([''input'' \<mapsto> Text ''weather today'', ''callbacks'' \<mapsto> Text ''handler'']) |` (- {''callbacks''})) [] =
     (Inr (Finish (AgentFinish [''output'' \<mapsto> ''It is sunny.''] ''It is sunny.'')), [([SystemMessage ''You are a helpful AI assistant.'', HumanMessage ''weather today''],
        None)])\<close>
    by (simp add: plan_def call_model_def parse_ai_message_def example_defs restrict_map_def)
  have p2: \<open>plan mock_codec (search_agent (AIMessage [] (Some (FunctionCall ''search'' ''{"q": "weather today"}'')))) [] False (([''input'' \<mapsto> Text ''weather today'']) |` (- {''callbacks''})) [] =
     (Inr (Action (AgentAction ''search'' [(''q'', ''weather today'')] [])), [([SystemMessage ''You are a helpful AI assistant.'', HumanMessage ''weather today''],
        None)])\<close>
    by (simp add: plan_def call_model_def parse_ai_message_def example_defs restrict_map_def)
  from generate_stop [of "([''input'' \<mapsto> Text ''weather today'', ''callbacks'' \<mapsto> Text ''handler''])" mock_codec "(search_agent (AIMessage ''It is sunny.'' None))" "[]" "[]", THEN conjunct2, THEN mp, OF n1] p1
  have r1: \<open>return_stopped_response mock_codec (search_agent (AIMessage ''It is sunny.'' None)) ''generate'' [] ([''input'' \<mapsto> Text ''weather today'', ''callbacks'' \<mapsto> Text ''handler'']) [] =
     (Inr (AgentFinish [''output'' \<mapsto> ''It is sunny.''] ''It is sunny.''), [([SystemMessage ''You are a helpful AI assistant.'', HumanMessage ''weather today''],
        None)])\<close>
    unfolding p1 by (simp add: prod_eq_iff)
  from generate_stop [of "([''input'' \<mapsto> Text ''weather today''])" mock_codec \<open>(search_agent (AIMessage [] (Some (FunctionCall ''search'' ''{"q": "weather today"}''))))\<close> "[]" "[]", THEN conjunct2, THEN mp, OF n2] p2
  have r2: \<open>fst (return_stopped_response mock_codec (search_agent (AIMessage [] (Some (FunctionCall ''search'' ''{"q": "weather today"}'')))) ''generate'' [] ([''input'' \<mapsto> Text ''weather today'']) []) =
     Inl (ValueError [Lit ''got AgentAction with no functions provided: '',
                      Decision (Action (AgentAction ''search'' [(''q'', ''weather today'')] []))])\<close>
    unfolding p2 by simp
  from generate_stop [of "([''input'' \<mapsto> Text ''weather today'', ''with_functions'' \<mapsto> Text ''True''])" mock_codec "(search_agent (AIMessage ''It is sunny.'' None))" "[]" "[]", THEN conjunct1, THEN mp, OF n3]
  have r3: \<open>return_stopped_response mock_codec (search_agent (AIMessage ''It is sunny.'' None)) ''generate'' [] ([''input'' \<mapsto> Text ''weather today'', ''with_functions'' \<mapsto> Text ''True'']) [] =
     (Inl (TypeError ''with_functions''), [])\<close> .
  from r1 r2 r3 show ?thesis by blast
qed

text \<open>
  The claim as first stated, for every mapping, fails at a mapping with an entry named
  \<^verbatim>\<open>with_functions\<close>: the operation returns a \<^verbatim>\<open>TypeError\<close> and sends no request,
  although the planning call with the tool schemas disabled, on that mapping or on its
  other entries, yields an AgentFinish after one model request.
\<close>

theorem generate_stop_counterexample:
  \<open>return_stopped_response mock_codec (search_agent (AIMessage ''It is sunny.'' None))
       ''generate'' []
       [''input'' \<mapsto> Text ''weather today'', ''with_functions'' \<mapsto> Text ''True''] [] =
     (Inl (TypeError ''with_functions''), []) \<and>
   plan mock_codec (search_agent (AIMessage ''It is sunny.'' None)) [] False
       [''input'' \<mapsto> Text ''weather today'', ''with_functions'' \<mapsto> Text ''True''] [] =
     (Inr (Finish (AgentFinish [''output'' \<mapsto> ''It is sunny.''] ''It is sunny.'')),
      [([SystemMessage ''You are a helpful AI assistant.'', HumanMessage ''weather today''],
        None)]) \<and>
   plan mock_codec (search_agent (AIMessage ''It is sunny.'' None)) [] False
       [''input'' \<mapsto> Text ''weather today''] [] =
     (Inr (Finish (AgentFinish [''output'' \<mapsto> ''It is sunny.''] ''It is sunny.'')),
      [([SystemMessage ''You are a helpful AI assistant.'', HumanMessage ''weather today''],
        None)])\<close>
  by (simp add: return_stopped_response_def plan_def call_model_def parse_ai_message_def
        example_defs)

subsection \<open>Construction\<close>

text \<open>
  Claim C3.  For every prompt template whose declared input variables do not include
  \<^verbatim>\<open>agent_scratchpad\<close>, constructing an agent fails with a \<^verbatim>\<open>ValueError\<close> at construction
  time, both through the class constructor (the root validator) and through
  \<^verbatim>\<open>create_openai_functions_agent\<close>, whatever else the template, the model and the tools
  are; construction never succeeds with such a template.
\<close>

theorem construction_rejects_missing_scratchpad:
  "''agent_scratchpad'' \<notin> set (input_variables p) \<Longrightarrow>
   OpenAIFunctionsAgent l ts p =
     Inl (ValueError
            [Lit ''`agent_scratchpad` should be one of the variables in the prompt, got '',
             StrList (input_variables p)]) \<and>
   create_openai_functions_agent c l ts p =
     Inl (ValueError
            [Lit ''Prompt must have input variable `agent_scratchpad`, but wasn't found. Found '',
             StrList (input_variables p),
             Lit '' instead.''])"
  by (simp add: OpenAIFunctionsAgent_def validate_prompt_def create_openai_functions_agent_def)

theorem construction_rejects_missing_scratchpad_witness:
  "''agent_scratchpad'' \<notin>
     set (input_variables
            (ChatPromptTemplate
               [Fixed (SystemMessage ''You are a helpful AI assistant.''),
                HumanMessagePromptTemplate ''input''] :: (string \<times> string) list prompt_template)) \<and>
   OpenAIFunctionsAgent (mock_llm (AIMessage ''It is sunny.'' None)) [search_tool]
     (ChatPromptTemplate
        [Fixed (SystemMessage ''You are a helpful AI assistant.''),
         HumanMessagePromptTemplate ''input''] :: (string \<times> string) list prompt_template) =
     Inl (ValueError
            [Lit ''`agent_scratchpad` should be one of the variables in the prompt, got '',
             StrList [''input'']]) \<and>
   create_openai_functions_agent mock_codec (mock_llm (AIMessage ''It is sunny.'' None))
     [search_tool]
     (ChatPromptTemplate
        [Fixed (SystemMessage ''You are a helpful AI assistant.''),
         HumanMessagePromptTemplate ''input'']) =
     Inl (ValueError
            [Lit ''Prompt must have input variable `agent_scratchpad`, but wasn't found. Found '',
             StrList [''input''],
             Lit '' instead.''])"
proof -
  have v: "input_variables
             (ChatPromptTemplate
                [Fixed (SystemMessage ''You are a helpful AI assistant.''),
                 HumanMessagePromptTemplate ''input''] :: (string \<times> string) list prompt_template) =
           [''input'']"
    by (simp add: ChatPromptTemplate_def)
  have h: "''agent_scratchpad'' \<notin>
     set (input_variables
            (ChatPromptTemplate
               [Fixed (SystemMessage ''You are a helpful AI assistant.''),
                HumanMessagePromptTemplate ''input''] :: (string \<times> string) list prompt_template))"
    by (simp add: v)
  from construction_rejects_missing_scratchpad
    [OF h, of "mock_llm (AIMessage ''It is sunny.'' None)" "[search_tool]" mock_codec]
  show ?thesis using h by (simp add: v)
qed

subsection \<open>History formatting\<close>

text \<open>
  Claim C2.  For every list of intermediate steps of length \<open>n\<close> the history formatter
  produces exactly \<open>2n\<close> messages: for the step at position \<open>i\<close>, message \<open>2i\<close> is an ai
  message carrying that step's function-call request (the tool name and the serialized
  tool input) and message \<open>2i + 1\<close> is a function-result message carrying that step's
  observation, tagged with the tool's name.  The empty list gives the empty sequence; as
  every position of the output is determined by the step at the matching position, no
  step is reordered, deduplicated or dropped.
\<close>

theorem history_formatter_two_per_step:
  "length (format_to_openai_function_messages c steps) = 2 * length steps \<and>
   (\<forall>i<length steps.
      format_to_openai_function_messages c steps ! (2 * i) =
        AIMessage [] (Some (FunctionCall (tool (fst (steps ! i)))
                              (dumps c (tool_input (fst (steps ! i)))))) \<and>
      format_to_openai_function_messages c steps ! (2 * i + 1) =
        FunctionMessage (tool (fst (steps ! i))) (snd (steps ! i))) \<and>
   format_to_openai_function_messages c [] = []"
  using length_format_to_openai_function_messages [of c steps]
    nth_format_to_openai_function_messages [of _ steps c]
  by simp

theorem history_formatter_two_per_step_witness:
  \<open>(1::nat) < length [(AgentAction ''search'' [(''q'', ''x'')] [], ''sunny''),
                      (AgentAction ''search'' [(''q'', ''weather today'')] [], ''rain'')] \<and>
   length (format_to_openai_function_messages mock_codec
             [(AgentAction ''search'' [(''q'', ''x'')] [], ''sunny''),
              (AgentAction ''search'' [(''q'', ''weather today'')] [], ''rain'')]) = 4 \<and>
   format_to_openai_function_messages mock_codec
       [(AgentAction ''search'' [(''q'', ''x'')] [], ''sunny''),
        (AgentAction ''search'' [(''q'', ''weather today'')] [], ''rain'')] ! 2 =
     AIMessage [] (Some (FunctionCall ''search'' ''{"q": "weather today"}'')) \<and>
   format_to_openai_function_messages mock_codec
       [(AgentAction ''search'' [(''q'', ''x'')] [], ''sunny''),
        (AgentAction ''search'' [(''q'', ''weather today'')] [], ''rain'')] ! 3 =
     FunctionMessage ''search'' ''rain''\<close>
proof -
  have h: "(1::nat) < length [(AgentAction ''search'' [(''q'', ''x'')] [], ''sunny''),
                      (AgentAction ''search'' [(''q'', ''weather today'')] [], ''rain'')]"
    by simp
  from history_formatter_two_per_step
    [of mock_codec "[(AgentAction ''search'' [(''q'', ''x'')] [], ''sunny''),
                     (AgentAction ''search'' [(''q'', ''weather today'')] [], ''rain'')]"]
  have "length (format_to_openai_function_messages mock_codec
             [(AgentAction ''search'' [(''q'', ''x'')] [], ''sunny''),
              (AgentAction ''search'' [(''q'', ''weather today'')] [], ''rain'')]) = 4"
    and "\<forall>i<length [(AgentAction ''search'' [(''q'', ''x'')] [], ''sunny''),
                     (AgentAction ''search'' [(''q'', ''weather today'')] [], ''rain'')].
      format_to_openai_function_messages mock_codec
        [(AgentAction ''search'' [(''q'', ''x'')] [], ''sunny''),
         (AgentAction ''search'' [(''q'', ''weather today'')] [], ''rain'')] ! (2 * i) =
        AIMessage [] (Some (FunctionCall
          (tool (fst ([(AgentAction ''search'' [(''q'', ''x'')] [], ''sunny''),
                       (AgentAction ''search'' [(''q'', ''weather today'')] [], ''rain'')] ! i)))
          (dumps mock_codec
             (tool_input (fst ([(AgentAction ''search'' [(''q'', ''x'')] [], ''sunny''),
                       (AgentAction ''search'' [(''q'', ''weather today'')] [], ''rain'')] ! i)))))) \<and>
      format_to_openai_function_messages mock_codec
        [(AgentAction ''search'' [(''q'', ''x'')] [], ''sunny''),
         (AgentAction ''search'' [(''q'', ''weather today'')] [], ''rain'')] ! (2 * i + 1) =
        FunctionMessage
          (tool (fst ([(AgentAction ''search'' [(''q'', ''x'')] [], ''sunny''),
                       (AgentAction ''search'' [(''q'', ''weather today'')] [], ''rain'')] ! i)))
          (snd ([(AgentAction ''search'' [(''q'', ''x'')] [], ''sunny''),
                 (AgentAction ''search'' [(''q'', ''weather today'')] [], ''rain'')] ! i))"
    by simp_all
  from this(1) this(2) [rule_format, OF h] h show ?thesis
    by (simp add: mock_codec_def)
qed

subsection \<open>Planning\<close>

text \<open>
  Claim C1.  Whenever a planning call (\<^verbatim>\<open>plan\<close> with or without tools, or \<^verbatim>\<open>aplan\<close>) has
  assembled its inputs, rendered the prompt and received the message \<open>m\<close> from the model,
  its result follows the parsing policy for \<open>m\<close>: a function-call request with decodable
  arguments gives an AgentAction with the requested name and the decoded arguments, a
  request whose arguments do not decode gives a decoding error, and a message without a
  request gives an AgentFinish whose output mapping is exactly the text of \<open>m\<close> under the
  key \<^verbatim>\<open>output\<close>.
\<close>

theorem planning_parses_model_reply:
  assumes sel: "selected_inputs (input_variables (prompt self)) kwargs = Inr sel"
    and ren: "format_prompt (prompt self)
                (sel(''agent_scratchpad'' \<mapsto>
                       Messages (format_to_openai_function_messages c steps))) = Inr messages"
  shows "(predict_messages (llm self) messages
            (if with_functions then Some (agent_functions self) else None) = Inr m \<longrightarrow>
          follows_parsing_policy c m (fst (plan c self steps with_functions kwargs tr))) \<and>
         (apredict_messages (llm self) messages (Some (agent_functions self)) = Inr m \<longrightarrow>
          follows_parsing_policy c m (fst (aplan c self steps kwargs tr)))"
  using sel ren parse_ai_message_policy [of c m]
  by (simp add: plan_def aplan_def call_model_def)

theorem planning_parses_model_reply_witness:
  \<open>selected_inputs
       (input_variables
          (prompt (search_agent (AIMessage [] (Some (FunctionCall ''search'' ''{"q": "x"}'')))
                     :: (string \<times> string) list agent)))
       [''input'' \<mapsto> Text ''weather today''] =
     Inr [''input'' \<mapsto> Text ''weather today''] \<and>
   format_prompt
       (prompt (search_agent (AIMessage [] (Some (FunctionCall ''search'' ''{"q": "x"}'')))))
       ([''input'' \<mapsto> Text ''weather today'']
          (''agent_scratchpad'' \<mapsto> Messages (format_to_openai_function_messages mock_codec []))) =
     Inr [SystemMessage ''You are a helpful AI assistant.'', HumanMessage ''weather today''] \<and>
   follows_parsing_policy mock_codec
     (AIMessage [] (Some (FunctionCall ''search'' ''{"q": "x"}'')))
     (fst (plan mock_codec
             (search_agent (AIMessage [] (Some (FunctionCall ''search'' ''{"q": "x"}''))))
             [] True [''input'' \<mapsto> Text ''weather today''] [])) \<and>
   follows_parsing_policy mock_codec
     (AIMessage [] (Some (FunctionCall ''search'' ''{"q": "x"}'')))
     (fst (aplan mock_codec
             (search_agent (AIMessage [] (Some (FunctionCall ''search'' ''{"q": "x"}''))))
             [] [''input'' \<mapsto> Text ''weather today''] [])) \<and>
   fst (plan mock_codec
          (search_agent (AIMessage [] (Some (FunctionCall ''search'' ''{"q": "x"}''))))
          [] True [''input'' \<mapsto> Text ''weather today''] []) =
     Inr (Action (AgentAction ''search'' [(''q'', ''x'')] [])) \<and>
   fst (plan mock_codec (search_agent (AIMessage ''It is sunny.'' None))
          [] True [''input'' \<mapsto> Text ''weather today''] []) =
     Inr (Finish (AgentFinish [''output'' \<mapsto> ''It is sunny.''] ''It is sunny.'')) \<and>
   fst (plan mock_codec
          (search_agent (AIMessage [] (Some (FunctionCall ''search'' ''{"q": ''))))
          [] True [''input'' \<mapsto> Text ''weather today''] []) =
     Inl (DecodingError ''{"q": '')\<close>
proof -
  have h1: \<open>selected_inputs
       (input_variables
          (prompt (search_agent (AIMessage [] (Some (FunctionCall ''search'' ''{"q": "x"}'')))
                     :: (string \<times> string) list agent)))
       [''input'' \<mapsto> Text ''weather today''] =
     Inr [''input'' \<mapsto> Text ''weather today'']\<close>
    by (simp add: example_defs)
  have h2: \<open>format_prompt
       (prompt (search_agent (AIMessage [] (Some (FunctionCall ''search'' ''{"q": "x"}'')))))
       ([''input'' \<mapsto> Text ''weather today'']
          (''agent_scratchpad'' \<mapsto> Messages (format_to_openai_function_messages mock_codec []))) =
     Inr [SystemMessage ''You are a helpful AI assistant.'', HumanMessage ''weather today'']\<close>
    by (simp add: example_defs)
  have h3: \<open>predict_messages
       (llm (search_agent (AIMessage [] (Some (FunctionCall ''search'' ''{"q": "x"}'')))
               :: (string \<times> string) list agent))
       [SystemMessage ''You are a helpful AI assistant.'', HumanMessage ''weather today'']
       (if True
        then Some (agent_functions
                     (search_agent (AIMessage [] (Some (FunctionCall ''search'' ''{"q": "x"}'')))
                        :: (string \<times> string) list agent))
        else None) =
     Inr (AIMessage [] (Some (FunctionCall ''search'' ''{"q": "x"}'')))\<close>
    by (simp add: mock_llm_def search_agent_def)
  have h4: \<open>apredict_messages
       (llm (search_agent (AIMessage [] (Some (FunctionCall ''search'' ''{"q": "x"}'')))
               :: (string \<times> string) list agent))
       [SystemMessage ''You are a helpful AI assistant.'', HumanMessage ''weather today'']
       (Some (agent_functions
                (search_agent (AIMessage [] (Some (FunctionCall ''search'' ''{"q": "x"}'')))
                   :: (string \<times> string) list agent))) =
     Inr (AIMessage [] (Some (FunctionCall ''search'' ''{"q": "x"}'')))\<close>
    by (simp add: mock_llm_def search_agent_def)
  note t = planning_parses_model_reply [OF h1 h2, of True
      \<open>AIMessage [] (Some (FunctionCall ''search'' ''{"q": "x"}''))\<close> "[]"]
  have c1: \<open>follows_parsing_policy mock_codec
     (AIMessage [] (Some (FunctionCall ''search'' ''{"q": "x"}'')))
     (fst (plan mock_codec
             (search_agent (AIMessage [] (Some (FunctionCall ''search'' ''{"q": "x"}''))))
             [] True [''input'' \<mapsto> Text ''weather today''] []))\<close>
    using t [THEN conjunct1] h3 by (rule mp)
  have c2: \<open>follows_parsing_policy mock_codec
     (AIMessage [] (Some (FunctionCall ''search'' ''{"q": "x"}'')))
     (fst (aplan mock_codec
             (search_agent (AIMessage [] (Some (FunctionCall ''search'' ''{"q": "x"}''))))
             [] [''input'' \<mapsto> Text ''weather today''] []))\<close>
    using t [THEN conjunct2] h4 by (rule mp)
  have e1: \<open>fst (plan mock_codec
          (search_agent (AIMessage [] (Some (FunctionCall ''search'' ''{"q": "x"}''))))
          [] True [''input'' \<mapsto> Text ''weather today''] []) =
     Inr (Action (AgentAction ''search'' [(''q'', ''x'')] []))\<close>
    by (simp add: plan_def call_model_def parse_ai_message_def example_defs)
  have e2: \<open>fst (plan mock_codec (search_agent (AIMessage ''It is sunny.'' None))
          [] True [''input'' \<mapsto> Text ''weather today''] []) =
     Inr (Finish (AgentFinish [''output'' \<mapsto> ''It is sunny.''] ''It is sunny.''))\<close>
    by (simp add: plan_def call_model_def parse_ai_message_def example_defs)
  have e3: \<open>fst (plan mock_codec
          (search_agent (AIMessage [] (Some (FunctionCall ''search'' ''{"q": ''))))
          [] True [''input'' \<mapsto> Text ''weather today''] []) =
     Inl (DecodingError ''{"q": '')\<close>
    by (simp add: plan_def call_model_def parse_ai_message_def example_defs)
  from h1 h2 c1 c2 e1 e2 e3 show ?thesis by blast
qed

text \<open>
  Claim C7.  \<^verbatim>\<open>aplan\<close> and \<^verbatim>\<open>plan\<close> with tools offered send the same requests to the
  model (the same rendered messages and the same list of tool schemas); when the
  awaitable and the blocking call of the model answer alike, the two operations return
  the same decision or error.  Every request \<^verbatim>\<open>aplan\<close> sends carries the tool schemas,
  and only \<^verbatim>\<open>plan\<close> has the mode without tools, in which no request carries schemas.
\<close>

theorem aplan_matches_plan:
  "snd (aplan c self steps kwargs tr) = snd (plan c self steps True kwargs tr) \<and>
   ((\<forall>messages. apredict_messages (llm self) messages (Some (agent_functions self)) =
                 predict_messages (llm self) messages (Some (agent_functions self))) \<longrightarrow>
    aplan c self steps kwargs tr = plan c self steps True kwargs tr) \<and>
   (\<forall>req\<in>set (drop (length tr) (snd (aplan c self steps kwargs tr))).
      snd req = Some (agent_functions self)) \<and>
   (\<forall>req\<in>set (drop (length tr) (snd (plan c self steps False kwargs tr))). snd req = None)"
proof -
  have a: "\<forall>req\<in>set (drop (length tr) (snd (aplan c self steps kwargs tr))).
             snd req = Some (agent_functions self)"
    using aplan_trace [of c self steps kwargs tr] by auto
  have b: "\<forall>req\<in>set (drop (length tr) (snd (plan c self steps False kwargs tr))). snd req = None"
    using plan_trace [of c self steps False kwargs tr] by auto
  from a b aplan_plan_trace [of c self steps kwargs tr]
    aplan_plan_same_reply [of self c steps kwargs tr]
  show ?thesis by blast
qed

theorem aplan_matches_plan_witness:
  \<open>(\<forall>messages.
      apredict_messages
        (llm (search_agent (AIMessage ''It is sunny.'' None) :: (string \<times> string) list agent))
        messages
        (Some (agent_functions
                 (search_agent (AIMessage ''It is sunny.'' None)
                    :: (string \<times> string) list agent))) =
      predict_messages (llm (search_agent (AIMessage ''It is sunny.'' None))) messages
        (Some (agent_functions
                 (search_agent (AIMessage ''It is sunny.'' None)
                    :: (string \<times> string) list agent)))) \<and>
   aplan mock_codec (search_agent (AIMessage ''It is sunny.'' None)) []
       [''input'' \<mapsto> Text ''weather today''] [] =
     plan mock_codec (search_agent (AIMessage ''It is sunny.'' None)) [] True
       [''input'' \<mapsto> Text ''weather today''] [] \<and>
   snd (aplan mock_codec (search_agent (AIMessage ''It is sunny.'' None)) []
          [''input'' \<mapsto> Text ''weather today''] []) =
     [([SystemMessage ''You are a helpful AI assistant.'', HumanMessage ''weather today''],
       Some [\<lparr>fn_name = ''search'', fn_description = ''Search the web.'',
               fn_parameters = ''{q: string}''\<rparr>])] \<and>
   snd (plan mock_codec (search_agent (AIMessage ''It is sunny.'' None)) [] False
          [''input'' \<mapsto> Text ''weather today''] []) =
     [([SystemMessage ''You are a helpful AI assistant.'', HumanMessage ''weather today''],
       None)]\<close>
proof -
  have h: \<open>\<forall>messages.
      apredict_messages
        (llm (search_agent (AIMessage ''It is sunny.'' None) :: (string \<times> string) list agent))
        messages
        (Some (agent_functions
                 (search_agent (AIMessage ''It is sunny.'' None)
                    :: (string \<times> string) list agent))) =
      predict_messages (llm (search_agent (AIMessage ''It is sunny.'' None))) messages
        (Some (agent_functions
                 (search_agent (AIMessage ''It is sunny.'' None)
                    :: (string \<times> string) list agent)))\<close>
    by (simp add: mock_llm_def search_agent_def)
  have eq: \<open>aplan mock_codec (search_agent (AIMessage ''It is sunny.'' None)) []
       [''input'' \<mapsto> Text ''weather today''] [] =
     plan mock_codec (search_agent (AIMessage ''It is sunny.'' None)) [] True
       [''input'' \<mapsto> Text ''weather today''] []\<close>
    using aplan_matches_plan [of mock_codec "search_agent (AIMessage ''It is sunny.'' None)"
        "[]" "[''input'' \<mapsto> Text ''weather today'']" "[]", THEN conjunct2, THEN conjunct1] h
    by (rule mp)
  have e1: \<open>snd (aplan mock_codec (search_agent (AIMessage ''It is sunny.'' None)) []
          [''input'' \<mapsto> Text ''weather today''] []) =
     [([SystemMessage ''You are a helpful AI assistant.'', HumanMessage ''weather today''],
       Some [\<lparr>fn_name = ''search'', fn_description = ''Search the web.'',
               fn_parameters = ''{q: string}''\<rparr>])]\<close>
    by (simp add: aplan_def call_model_def parse_ai_message_def example_defs)
  have e2: \<open>snd (plan mock_codec (search_agent (AIMessage ''It is sunny.'' None)) [] False
          [''input'' \<mapsto> Text ''weather today''] []) =
     [([SystemMessage ''You are a helpful AI assistant.'', HumanMessage ''weather today''],
       None)]\<close>
    by (simp add: plan_def call_model_def parse_ai_message_def example_defs)
  from h eq e1 e2 show ?thesis by blast
qed

text \<open>
  Claim C9.  When the caller's mapping lacks a variable that the template declares (other
  than \<^verbatim>\<open>agent_scratchpad\<close>), \<^verbatim>\<open>plan\<close> and \<^verbatim>\<open>aplan\<close> fail with the \<^verbatim>\<open>KeyError\<close> of
  such a variable and the trace is unchanged: the failure comes before any model
  invocation.  When every such variable is supplied, the selection of the inputs succeeds
  with the caller's mapping restricted to the declared variables, and both \<^verbatim>\<open>plan\<close> and
  \<^verbatim>\<open>aplan\<close> go on to render the prompt, invoke the model and parse the reply: their
  result is what rendering, the model and the parser give.
\<close>

theorem missing_variable_fails_before_model:
  "((\<exists>k\<in>set (input_variables (prompt self)). k \<noteq> ''agent_scratchpad'' \<and> kwargs k = None) \<longrightarrow>
    (\<exists>k\<in>set (input_variables (prompt self)).
       k \<noteq> ''agent_scratchpad'' \<and> kwargs k = None \<and>
       plan c self steps with_functions kwargs tr = (Inl (KeyError k), tr) \<and>
       aplan c self steps kwargs tr = (Inl (KeyError k), tr))) \<and>
   ((\<forall>k\<in>set (input_variables (prompt self)). k \<noteq> ''agent_scratchpad'' \<longrightarrow> kwargs k \<noteq> None) \<longrightarrow>
    selected_inputs (input_variables (prompt self)) kwargs =
      Inr (kwargs |` (set (input_variables (prompt self)) - {''agent_scratchpad''})) \<and>
    plan c self steps with_functions kwargs tr =
      (case format_prompt (prompt self)
              ((kwargs |` (set (input_variables (prompt self)) - {''agent_scratchpad''}))
                 (''agent_scratchpad'' \<mapsto> Messages (format_to_openai_function_messages c steps))) of
         Inl e \<Rightarrow> (Inl e, tr)
       | Inr messages \<Rightarrow>
           (case predict_messages (llm self) messages
                   (if with_functions then Some (agent_functions self) else None) of
              Inl e \<Rightarrow>
                (Inl e,
                 tr @ [(messages, if with_functions then Some (agent_functions self) else None)])
            | Inr m \<Rightarrow>
                (parse_ai_message c m,
                 tr @ [(messages, if with_functions then Some (agent_functions self) else None)]))) \<and>
    aplan c self steps kwargs tr =
      (case format_prompt (prompt self)
              ((kwargs |` (set (input_variables (prompt self)) - {''agent_scratchpad''}))
                 (''agent_scratchpad'' \<mapsto> Messages (format_to_openai_function_messages c steps))) of
         Inl e \<Rightarrow> (Inl e, tr)
       | Inr messages \<Rightarrow>
           (case apredict_messages (llm self) messages (Some (agent_functions self)) of
              Inl e \<Rightarrow> (Inl e, tr @ [(messages, Some (agent_functions self))])
            | Inr m \<Rightarrow> (parse_ai_message c m, tr @ [(messages, Some (agent_functions self))]))))"
proof (intro conjI impI)
  assume "\<exists>k\<in>set (input_variables (prompt self)). k \<noteq> ''agent_scratchpad'' \<and> kwargs k = None"
  from selected_inputs_missing [OF this] obtain k where
    k: "k \<in> set (input_variables (prompt self))" "k \<noteq> ''agent_scratchpad''" "kwargs k = None"
       "selected_inputs (input_variables (prompt self)) kwargs = Inl (KeyError k)" by blast
  then have "plan c self steps with_functions kwargs tr = (Inl (KeyError k), tr) \<and>
             aplan c self steps kwargs tr = (Inl (KeyError k), tr)"
    by (simp add: plan_def aplan_def)
  with k show "\<exists>k\<in>set (input_variables (prompt self)).
       k \<noteq> ''agent_scratchpad'' \<and> kwargs k = None \<and>
       plan c self steps with_functions kwargs tr = (Inl (KeyError k), tr) \<and>
       aplan c self steps kwargs tr = (Inl (KeyError k), tr)" by blast
next
  assume a: "\<forall>k\<in>set (input_variables (prompt self)). k \<noteq> ''agent_scratchpad'' \<longrightarrow> kwargs k \<noteq> None"
  from selected_inputs_present [OF a]
  show sel: "selected_inputs (input_variables (prompt self)) kwargs =
      Inr (kwargs |` (set (input_variables (prompt self)) - {''agent_scratchpad''}))" .
  from sel show "plan c self steps with_functions kwargs tr =
      (case format_prompt (prompt self)
              ((kwargs |` (set (input_variables (prompt self)) - {''agent_scratchpad''}))
                 (''agent_scratchpad'' \<mapsto> Messages (format_to_openai_function_messages c steps))) of
         Inl e \<Rightarrow> (Inl e, tr)
       | Inr messages \<Rightarrow>
           (case predict_messages (llm self) messages
                   (if with_functions then Some (agent_functions self) else None) of
              Inl e \<Rightarrow>
                (Inl e,
                 tr @ [(messages, if with_functions then Some (agent_functions self) else None)])
            | Inr m \<Rightarrow>
                (parse_ai_message c m,
                 tr @ [(messages, if with_functions then Some (agent_functions self) else None)])))"
    by (simp add: plan_def call_model_def split: sum.splits)
  from sel show "aplan c self steps kwargs tr =
      (case format_prompt (prompt self)
              ((kwargs |` (set (input_variables (prompt self)) - {''agent_scratchpad''}))
                 (''agent_scratchpad'' \<mapsto> Messages (format_to_openai_function_messages c steps))) of
         Inl e \<Rightarrow> (Inl e, tr)
       | Inr messages \<Rightarrow>
           (case apredict_messages (llm self) messages (Some (agent_functions self)) of
              Inl e \<Rightarrow> (Inl e, tr @ [(messages, Some (agent_functions self))])
            | Inr m \<Rightarrow> (parse_ai_message c m, tr @ [(messages, Some (agent_functions self))])))"
    by (simp add: aplan_def call_model_def split: sum.splits)
qed

theorem missing_variable_fails_before_model_witness:
  "plan mock_codec (search_agent (AIMessage ''It is sunny.'' None)) [] True Map.empty [] = (Inl (KeyError ''input''), []) \<and>
   aplan mock_codec (search_agent (AIMessage ''It is sunny.'' None)) [] Map.empty [] = (Inl (KeyError ''input''), []) \<and>
   selected_inputs (input_variables (prompt (search_agent (AIMessage ''It is sunny.'' None) :: (string \<times> string) list agent))) ([''input'' \<mapsto> Text ''weather today''] :: (string \<times> string) list inputs) =
     Inr ([''input'' \<mapsto> Text ''weather today''] |` {''input''}) \<and>
   plan mock_codec (search_agent (AIMessage ''It is sunny.'' None)) [] False ([''input'' \<mapsto> Text ''weather today''] :: (string \<times> string) list inputs) [] =
     (Inr (Finish (AgentFinish [''output'' \<mapsto> ''It is sunny.''] ''It is sunny.'')), [([SystemMessage ''You are a helpful AI assistant.'', HumanMessage ''weather today''], None)]) \<and>
   aplan mock_codec (search_agent (AIMessage ''It is sunny.'' None)) [] ([''input'' \<mapsto> Text ''weather today''] :: (string \<times> string) list inputs) [] =
     (Inr (Finish (AgentFinish [''output'' \<mapsto> ''It is sunny.''] ''It is sunny.'')), [([SystemMessage ''You are a helpful AI assistant.'', HumanMessage ''weather today''], Some [\<lparr>fn_name = ''search'', fn_description = ''Search the web.'',
            fn_parameters = ''{q: string}''\<rparr>])])"
proof -
  have v: "input_variables (prompt (search_agent (AIMessage ''It is sunny.'' None) :: (string \<times> string) list agent)) = [''input'', ''agent_scratchpad'']"
    by (simp add: example_defs)
  have h1: "\<exists>k\<in>set (input_variables (prompt (search_agent (AIMessage ''It is sunny.'' None) :: (string \<times> string) list agent))).
      k \<noteq> ''agent_scratchpad'' \<and> (Map.empty :: (string \<times> string) list inputs) k = None"
    by (simp add: v)
  have h2: "\<forall>k\<in>set (input_variables (prompt (search_agent (AIMessage ''It is sunny.'' None) :: (string \<times> string) list agent))).
      k \<noteq> ''agent_scratchpad'' \<longrightarrow> ([''input'' \<mapsto> Text ''weather today''] :: (string \<times> string) list inputs) k \<noteq> None"
    by (simp add: v)
  have s: "set [''input'', ''agent_scratchpad''] - {''agent_scratchpad''} = {''input''}"
    by auto
  from missing_variable_fails_before_model
    [of "(search_agent (AIMessage ''It is sunny.'' None))" Map.empty mock_codec "[]" True "[]", THEN conjunct1, THEN mp, OF h1]
  have c1: "plan mock_codec (search_agent (AIMessage ''It is sunny.'' None)) [] True Map.empty [] = (Inl (KeyError ''input''), []) \<and>
   aplan mock_codec (search_agent (AIMessage ''It is sunny.'' None)) [] Map.empty [] = (Inl (KeyError ''input''), [])"
    by (auto simp: v)
  note t = missing_variable_fails_before_model
    [of "(search_agent (AIMessage ''It is sunny.'' None))" "[''input'' \<mapsto> Text ''weather today'']" mock_codec "[]" False "[]",
     THEN conjunct2, THEN mp, OF h2]
  from t [THEN conjunct1]
  have c2: "selected_inputs (input_variables (prompt (search_agent (AIMessage ''It is sunny.'' None) :: (string \<times> string) list agent))) ([''input'' \<mapsto> Text ''weather today''] :: (string \<times> string) list inputs) =
     Inr ([''input'' \<mapsto> Text ''weather today''] |` {''input''})"
    by (simp only: v s)
  from t [THEN conjunct2, THEN conjunct1]
  have c3: "plan mock_codec (search_agent (AIMessage ''It is sunny.'' None)) [] False ([''input'' \<mapsto> Text ''weather today''] :: (string \<times> string) list inputs) [] =
     (Inr (Finish (AgentFinish [''output'' \<mapsto> ''It is sunny.''] ''It is sunny.'')), [([SystemMessage ''You are a helpful AI assistant.'', HumanMessage ''weather today''], None)])"
    by (simp add: v s restrict_map_def parse_ai_message_def example_defs)
  from t [THEN conjunct2, THEN conjunct2]
  have c4: "aplan mock_codec (search_agent (AIMessage ''It is sunny.'' None)) [] ([''input'' \<mapsto> Text ''weather today''] :: (string \<times> string) list inputs) [] =
     (Inr (Finish (AgentFinish [''output'' \<mapsto> ''It is sunny.''] ''It is sunny.'')), [([SystemMessage ''You are a helpful AI assistant.'', HumanMessage ''weather today''], Some [\<lparr>fn_name = ''search'', fn_description = ''Search the web.'',
            fn_parameters = ''{q: string}''\<rparr>])])"
    by (simp add: v s restrict_map_def parse_ai_message_def example_defs)
  from c1 c2 c3 c4 show ?thesis by blast
qed

text \<open>
  Claim C10.  Two planning calls (both \<^verbatim>\<open>plan\<close> or both \<^verbatim>\<open>aplan\<close>) with the same
  intermediate steps whose mappings agree on every declared template variable other than
  \<^verbatim>\<open>agent_scratchpad\<close> return the same result and the same trace.  When the declared
  variables are supplied and the template renders, the one request each call sends holds
  exactly the messages rendered from the declared variables and from the formatted
  intermediate steps under \<^verbatim>\<open>agent_scratchpad\<close>: entries under undeclared keys are
  ignored, and an \<^verbatim>\<open>agent_scratchpad\<close> entry of the caller is replaced by the formatted
  steps.
\<close>

theorem undeclared_inputs_do_not_interfere:
  assumes "\<forall>k\<in>set (input_variables (prompt self)). k \<noteq> ''agent_scratchpad'' \<longrightarrow> kw1 k = kw2 k"
  shows "plan c self steps with_functions kw1 tr = plan c self steps with_functions kw2 tr \<and>
         aplan c self steps kw1 tr = aplan c self steps kw2 tr \<and>
         (\<forall>messages.
            (\<forall>k\<in>set (input_variables (prompt self)).
               k \<noteq> ''agent_scratchpad'' \<longrightarrow> kw1 k \<noteq> None) \<and>
            format_prompt (prompt self)
              ((kw1 |` (set (input_variables (prompt self)) - {''agent_scratchpad''}))
                 (''agent_scratchpad'' \<mapsto> Messages (format_to_openai_function_messages c steps))) =
              Inr messages \<longrightarrow>
            snd (plan c self steps with_functions kw2 tr) =
              tr @ [(messages, if with_functions then Some (agent_functions self) else None)] \<and>
            snd (aplan c self steps kw2 tr) = tr @ [(messages, Some (agent_functions self))])"
proof (intro conjI allI impI)
  have eq: "selected_inputs (input_variables (prompt self)) kw1 =
            selected_inputs (input_variables (prompt self)) kw2"
    using assms by (rule selected_inputs_cong)
  from eq show p: "plan c self steps with_functions kw1 tr = plan c self steps with_functions kw2 tr"
    by (simp add: plan_def)
  from eq show a: "aplan c self steps kw1 tr = aplan c self steps kw2 tr"
    by (simp add: aplan_def)
  fix messages
  assume h: "(\<forall>k\<in>set (input_variables (prompt self)).
               k \<noteq> ''agent_scratchpad'' \<longrightarrow> kw1 k \<noteq> None) \<and>
            format_prompt (prompt self)
              ((kw1 |` (set (input_variables (prompt self)) - {''agent_scratchpad''}))
                 (''agent_scratchpad'' \<mapsto> Messages (format_to_openai_function_messages c steps))) =
              Inr messages"
  from h have sel: "selected_inputs (input_variables (prompt self)) kw1 =
      Inr (kw1 |` (set (input_variables (prompt self)) - {''agent_scratchpad''}))"
    by (simp add: selected_inputs_present)
  from sel h have "snd (plan c self steps with_functions kw1 tr) =
      tr @ [(messages, if with_functions then Some (agent_functions self) else None)]"
    by (simp add: plan_def call_model_def split: sum.splits)
  then show "snd (plan c self steps with_functions kw2 tr) =
      tr @ [(messages, if with_functions then Some (agent_functions self) else None)]"
    by (simp add: p)
  from sel h have "snd (aplan c self steps kw1 tr) = tr @ [(messages, Some (agent_functions self))]"
    by (simp add: aplan_def call_model_def split: sum.splits)
  then show "snd (aplan c self steps kw2 tr) = tr @ [(messages, Some (agent_functions self))]"
    by (simp add: a)
qed

theorem undeclared_inputs_do_not_interfere_witness:
  \<open>plan mock_codec (search_agent (AIMessage ''It is sunny.'' None)) [(AgentAction ''search'' [(''q'', ''x'')] [], ''sunny'')] True ([''input'' \<mapsto> Text ''weather today''] :: (string \<times> string) list inputs) [] =
     plan mock_codec (search_agent (AIMessage ''It is sunny.'' None)) [(AgentAction ''search'' [(''q'', ''x'')] [], ''sunny'')] True
       [''input'' \<mapsto> Text ''weather today'', ''secret'' \<mapsto> Text ''hunter2'',
        ''agent_scratchpad'' \<mapsto> Messages [HumanMessage ''injected'']] [] \<and>
   snd (plan mock_codec (search_agent (AIMessage ''It is sunny.'' None)) [(AgentAction ''search'' [(''q'', ''x'')] [], ''sunny'')] True
          [''input'' \<mapsto> Text ''weather today'', ''secret'' \<mapsto> Text ''hunter2'',
        ''agent_scratchpad'' \<mapsto> Messages [HumanMessage ''injected'']] []) =
     [([SystemMessage ''You are a helpful AI assistant.'', HumanMessage ''weather today'',
         AIMessage [] (Some (FunctionCall ''search'' ''{"q": "x"}'')),
         FunctionMessage ''search'' ''sunny''], Some [\<lparr>fn_name = ''search'', fn_description = ''Search the web.'',
            fn_parameters = ''{q: string}''\<rparr>])] \<and>
   snd (aplan mock_codec (search_agent (AIMessage ''It is sunny.'' None)) [(AgentAction ''search'' [(''q'', ''x'')] [], ''sunny'')]
          [''input'' \<mapsto> Text ''weather today'', ''secret'' \<mapsto> Text ''hunter2'',
        ''agent_scratchpad'' \<mapsto> Messages [HumanMessage ''injected'']] []) =
     [([SystemMessage ''You are a helpful AI assistant.'', HumanMessage ''weather today'',
         AIMessage [] (Some (FunctionCall ''search'' ''{"q": "x"}'')),
         FunctionMessage ''search'' ''sunny''], Some [\<lparr>fn_name = ''search'', fn_description = ''Search the web.'',
            fn_parameters = ''{q: string}''\<rparr>])] \<and>
   fst (plan mock_codec (search_agent (AIMessage ''It is sunny.'' None)) [(AgentAction ''search'' [(''q'', ''x'')] [], ''sunny'')] True
          [''input'' \<mapsto> Text ''weather today'', ''secret'' \<mapsto> Text ''hunter2'',
        ''agent_scratchpad'' \<mapsto> Messages [HumanMessage ''injected'']] []) =
     Inr (Finish (AgentFinish [''output'' \<mapsto> ''It is sunny.''] ''It is sunny.''))\<close>
proof -
  have v: "input_variables (prompt (search_agent (AIMessage ''It is sunny.'' None) :: (string \<times> string) list agent)) = [''input'', ''agent_scratchpad'']"
    by (simp add: example_defs)
  have s: "set [''input'', ''agent_scratchpad''] - {''agent_scratchpad''} = {''input''}"
    by auto
  have h: "\<forall>k\<in>set (input_variables (prompt (search_agent (AIMessage ''It is sunny.'' None) :: (string \<times> string) list agent))).
      k \<noteq> ''agent_scratchpad'' \<longrightarrow>
      ([''input'' \<mapsto> Text ''weather today''] :: (string \<times> string) list inputs) k =
      [''input'' \<mapsto> Text ''weather today'', ''secret'' \<mapsto> Text ''hunter2'',
        ''agent_scratchpad'' \<mapsto> Messages [HumanMessage ''injected'']] k"
    by (simp add: v)
  have hs: "\<forall>k\<in>set (input_variables (prompt (search_agent (AIMessage ''It is sunny.'' None) :: (string \<times> string) list agent))).
      k \<noteq> ''agent_scratchpad'' \<longrightarrow> ([''input'' \<mapsto> Text ''weather today''] :: (string \<times> string) list inputs) k \<noteq> None"
    by (simp add: v)
  have hr: \<open>format_prompt (prompt (search_agent (AIMessage ''It is sunny.'' None) :: (string \<times> string) list agent))
      ((([''input'' \<mapsto> Text ''weather today''] :: (string \<times> string) list inputs) |` (set (input_variables (prompt (search_agent (AIMessage ''It is sunny.'' None) :: (string \<times> string) list agent))) - {''agent_scratchpad''}))
         (''agent_scratchpad'' \<mapsto> Messages (format_to_openai_function_messages mock_codec [(AgentAction ''search'' [(''q'', ''x'')] [], ''sunny'')]))) =
      Inr [SystemMessage ''You are a helpful AI assistant.'', HumanMessage ''weather today'',
         AIMessage [] (Some (FunctionCall ''search'' ''{"q": "x"}'')),
         FunctionMessage ''search'' ''sunny'']\<close>
    by (simp add: v s) (simp add: example_defs restrict_map_def)
  note t = undeclared_inputs_do_not_interfere [OF h, of mock_codec "[(AgentAction ''search'' [(''q'', ''x'')] [], ''sunny'')]" True "[]"]
  from t [THEN conjunct2, THEN conjunct2, rule_format, OF conjI, OF hs hr]
  have c: \<open>snd (plan mock_codec (search_agent (AIMessage ''It is sunny.'' None)) [(AgentAction ''search'' [(''q'', ''x'')] [], ''sunny'')] True
          [''input'' \<mapsto> Text ''weather today'', ''secret'' \<mapsto> Text ''hunter2'',
        ''agent_scratchpad'' \<mapsto> Messages [HumanMessage ''injected'']] []) =
     [([SystemMessage ''You are a helpful AI assistant.'', HumanMessage ''weather today'',
         AIMessage [] (Some (FunctionCall ''search'' ''{"q": "x"}'')),
         FunctionMessage ''search'' ''sunny''], Some [\<lparr>fn_name = ''search'', fn_description = ''Search the web.'',
            fn_parameters = ''{q: string}''\<rparr>])] \<and>
   snd (aplan mock_codec (search_agent (AIMessage ''It is sunny.'' None)) [(AgentAction ''search'' [(''q'', ''x'')] [], ''sunny'')]
          [''input'' \<mapsto> Text ''weather today'', ''secret'' \<mapsto> Text ''hunter2'',
        ''agent_scratchpad'' \<mapsto> Messages [HumanMessage ''injected'']] []) =
     [([SystemMessage ''You are a helpful AI assistant.'', HumanMessage ''weather today'',
         AIMessage [] (Some (FunctionCall ''search'' ''{"q": "x"}'')),
         FunctionMessage ''search'' ''sunny''], Some [\<lparr>fn_name = ''search'', fn_description = ''Search the web.'',
            fn_parameters = ''{q: string}''\<rparr>])]\<close>
    by (simp add: example_defs)
  have e: \<open>fst (plan mock_codec (search_agent (AIMessage ''It is sunny.'' None)) [(AgentAction ''search'' [(''q'', ''x'')] [], ''sunny'')] True
          [''input'' \<mapsto> Text ''weather today'', ''secret'' \<mapsto> Text ''hunter2'',
        ''agent_scratchpad'' \<mapsto> Messages [HumanMessage ''injected'']] []) =
     Inr (Finish (AgentFinish [''output'' \<mapsto> ''It is sunny.''] ''It is sunny.''))\<close>
    by (simp add: plan_def call_model_def parse_ai_message_def example_defs)
  from t [THEN conjunct1] c e show ?thesis by blast
qed

subsection \<open>The runnable agent\<close>

text \<open>
  Claim C8.  For a template that declares \<^verbatim>\<open>agent_scratchpad\<close>,
  \<^verbatim>\<open>create_openai_functions_agent\<close> returns a runnable and the class constructor returns
  an agent such that, for every input mapping that holds the intermediate steps under
  \<^verbatim>\<open>intermediate_steps\<close> and gives the template's variables the values the caller of
  \<^verbatim>\<open>plan\<close> supplies, and a model whose \<^verbatim>\<open>invoke\<close> answers as \<^verbatim>\<open>predict_messages\<close> does,
  the runnable returns what \<^verbatim>\<open>plan\<close> with tools offered returns: the same decision or
  error, and the same trace of requests.
\<close>

theorem runnable_agent_matches_plan:
  assumes scratch: "''agent_scratchpad'' \<in> set (input_variables p)"
    and steps: "x ''intermediate_steps'' = Some (Steps steps)"
    and vars: "\<forall>k\<in>set (input_variables p). k \<noteq> ''agent_scratchpad'' \<longrightarrow> kwargs k = x k"
    and reply: "\<forall>messages fns. invoke l messages fns = predict_messages l messages fns"
  shows "\<exists>agent_runnable self.
           create_openai_functions_agent c l ts p = Inr agent_runnable \<and>
           OpenAIFunctionsAgent l ts p = Inr self \<and>
           agent_runnable x tr = plan c self steps True kwargs tr"
proof -
  have sel: "selected_inputs (input_variables p) kwargs = selected_inputs (input_variables p) x"
    using vars by (rule selected_inputs_cong)
  have dict: "input_dict (input_variables p)
                (x(''agent_scratchpad'' \<mapsto> Messages (format_to_openai_function_messages c steps))) =
              (case selected_inputs (input_variables p) x of
                 Inl e \<Rightarrow> Inl e
               | Inr sel \<Rightarrow>
                   Inr (sel(''agent_scratchpad'' \<mapsto>
                              Messages (format_to_openai_function_messages c steps))))"
    using scratch by (simp add: input_dict_selected_inputs split: sum.splits)
  show ?thesis
    using scratch steps reply
    by (simp add: create_openai_functions_agent_def OpenAIFunctionsAgent_def validate_prompt_def
          pipe_def RunnablePassthrough_assign_def scratchpad_of_def prompt_invoke_def bind_def
          OpenAIFunctionsAgentOutputParser_def plan_def agent_functions_def call_model_def
          sel dict
        split: sum.splits prod.splits)
qed

theorem runnable_agent_matches_plan_witness:
  \<open>''agent_scratchpad'' \<in>
     set (input_variables
            (create_default_prompt ''You are a helpful AI assistant.'' False
               :: (string \<times> string) list prompt_template)) \<and>
   ([''input'' \<mapsto> Text ''weather today'', ''intermediate_steps'' \<mapsto> Steps []]
      :: (string \<times> string) list inputs) ''intermediate_steps'' = Some (Steps []) \<and>
   (\<exists>agent_runnable self.
      create_openai_functions_agent mock_codec
        (mock_llm (AIMessage [] (Some (FunctionCall ''search'' ''{"q": "weather today"}''))))
        [search_tool] (create_default_prompt ''You are a helpful AI assistant.'' False) =
        Inr agent_runnable \<and>
      OpenAIFunctionsAgent
        (mock_llm (AIMessage [] (Some (FunctionCall ''search'' ''{"q": "weather today"}''))))
        [search_tool] (create_default_prompt ''You are a helpful AI assistant.'' False) =
        Inr self \<and>
      agent_runnable
        [''input'' \<mapsto> Text ''weather today'', ''intermediate_steps'' \<mapsto> Steps []] [] =
        plan mock_codec self [] True [''input'' \<mapsto> Text ''weather today''] [] \<and>
      fst (agent_runnable
             [''input'' \<mapsto> Text ''weather today'', ''intermediate_steps'' \<mapsto> Steps []] []) =
        Inr (Action (AgentAction ''search'' [(''q'', ''weather today'')] [])))\<close>
proof -
  have v: "input_variables
             (create_default_prompt ''You are a helpful AI assistant.'' False
                :: (string \<times> string) list prompt_template) =
           [''input'', ''agent_scratchpad'']"
    by (simp add: example_defs)
  have h1: "''agent_scratchpad'' \<in>
     set (input_variables
            (create_default_prompt ''You are a helpful AI assistant.'' False
               :: (string \<times> string) list prompt_template))"
    by (simp add: v)
  have h2: "([''input'' \<mapsto> Text ''weather today'', ''intermediate_steps'' \<mapsto> Steps []]
      :: (string \<times> string) list inputs) ''intermediate_steps'' = Some (Steps [])"
    by simp
  have h3: "\<forall>k\<in>set (input_variables
              (create_default_prompt ''You are a helpful AI assistant.'' False
                 :: (string \<times> string) list prompt_template)).
      k \<noteq> ''agent_scratchpad'' \<longrightarrow>
      ([''input'' \<mapsto> Text ''weather today''] :: (string \<times> string) list inputs) k =
      [''input'' \<mapsto> Text ''weather today'', ''intermediate_steps'' \<mapsto> Steps []] k"
    by (simp add: v)
  have h4: \<open>\<forall>messages fns.
      invoke (mock_llm (AIMessage [] (Some (FunctionCall ''search'' ''{"q": "weather today"}'')))
                :: (string \<times> string) list language_model) messages fns =
      predict_messages
        (mock_llm (AIMessage [] (Some (FunctionCall ''search'' ''{"q": "weather today"}''))))
        messages fns\<close>
    by (simp add: mock_llm_def)
  from runnable_agent_matches_plan [OF h1 h2 h3 h4, of mock_codec "[search_tool]" "[]"]
  obtain agent_runnable self where
    r: \<open>create_openai_functions_agent mock_codec
        (mock_llm (AIMessage [] (Some (FunctionCall ''search'' ''{"q": "weather today"}''))))
        [search_tool] (create_default_prompt ''You are a helpful AI assistant.'' False) =
        Inr agent_runnable\<close>
    and a: \<open>OpenAIFunctionsAgent
        (mock_llm (AIMessage [] (Some (FunctionCall ''search'' ''{"q": "weather today"}''))))
        [search_tool] (create_default_prompt ''You are a helpful AI assistant.'' False) =
        Inr self\<close>
    and e: "agent_runnable
        [''input'' \<mapsto> Text ''weather today'', ''intermediate_steps'' \<mapsto> Steps []] [] =
        plan mock_codec self [] True [''input'' \<mapsto> Text ''weather today''] []"
    by blast
  from a have self: \<open>self =
      search_agent (AIMessage [] (Some (FunctionCall ''search'' ''{"q": "weather today"}'')))\<close>
    by (simp add: OpenAIFunctionsAgent_def validate_prompt_def v search_agent_def)
  have \<open>fst (plan mock_codec self [] True [''input'' \<mapsto> Text ''weather today''] []) =
        Inr (Action (AgentAction ''search'' [(''q'', ''weather today'')] []))\<close>
    unfolding self
    by (simp add: plan_def call_model_def parse_ai_message_def example_defs)
  with r a e h1 h2 show ?thesis by auto
qed

end
